theory Spec2Isabelle
  imports Main "HOL-Library.AList"
begin

section \<open>Errors\<close>

text \<open>
  The exceptions the modelled code raises. \<open>Loader.__post_init__\<close> raises
  \<^verbatim>\<open>ValueError\<close> from two checks (the messages differ; the tag says which check
  fired), the noise stub raises \<^verbatim>\<open>NotImplementedError\<close>. Python's builtin
  \<^verbatim>\<open>len\<close> raises \<^verbatim>\<open>TypeError\<close> when \<^verbatim>\<open>__len__\<close> returns \<^verbatim>\<open>None\<close>,
  \<^verbatim>\<open>ValueError\<close> when it returns a negative number and \<^verbatim>\<open>OverflowError\<close> when
  it returns a number that does not fit a machine index.
\<close>

datatype check = NumSteps | BatchSize | NegativeLen

datatype error = ValueError check | TypeError | OverflowError | NotImplementedError

section \<open>Offset and Dataset (\<open>cebra/data/base.py\<close>)\<close>

text \<open>
  Modelled from the spec: the class \<^verbatim>\<open>Offset\<close> (\<^verbatim>\<open>cebra.data.datatypes\<close>) is
  imported by \<^verbatim>\<open>base.py\<close> but its declaration is not part of the sources at hand.
  The data model gives it two non-negative integers \<open>left\<close> and \<open>right\<close>, and
  \<^verbatim>\<open>len(offset) = left + right\<close>.
\<close>

record Offset =
  left :: nat
  right :: nat

text \<open>
  The state of a \<^verbatim>\<open>Dataset\<close>: the bound offset set by \<^verbatim>\<open>__init__\<close>, the
  device handed to \<^verbatim>\<open>HasDevice.__init__\<close>, and \<open>len\<close>, the value the concrete
  subclass returns from \<^verbatim>\<open>__len__\<close> (Python's \<^verbatim>\<open>len\<close> only returns
  non-negative integers). Fields of subclasses live in the record extension.
\<close>

record dataset =
  offset :: Offset
  device :: string
  len :: nat

definition Dataset_init :: "string \<Rightarrow> nat \<Rightarrow> dataset" where
  "Dataset_init dev n = \<lparr>offset = \<lparr>left = 0, right = 1\<rparr>, device = dev, len = n\<rparr>"

text \<open>
  \<^verbatim>\<open>torch.arange(start, stop)\<close> on integers: \<open>start, start + 1, ..., stop - 1\<close>
  (empty when \<open>start = stop\<close>). It is only called with \<open>start = -left \<le> right = stop\<close>.
\<close>

definition arange :: "int \<Rightarrow> int \<Rightarrow> int list" where
  "arange start stop = [start..stop - 1]"

text \<open>
  \<^verbatim>\<open>torch.clamp(x, min, max)\<close> on one entry computes \<open>min(max(x, min), max)\<close>; when
  the lower bound exceeds the upper bound every entry becomes the upper bound, as
  the documentation of \<^verbatim>\<open>torch.clamp\<close> states.
\<close>

definition clamp :: "int \<Rightarrow> int \<Rightarrow> int \<Rightarrow> int" where
  "clamp x lo hi = min (max x lo) hi"

text \<open>
  \<^verbatim>\<open>
  def expand_index(self, index):
      offset = torch.arange(-self.offset.left, self.offset.right, ...)
      index = torch.clamp(index, self.offset.left, len(self) - self.offset.right)
      return index[:, None] + offset[None, :]
  \<close>
  The index is a one-dimensional tensor of type long, here a list of integers; the
  result is a two-dimensional tensor, here the list of its rows. The body has no
  \<^verbatim>\<open>raise\<close>, so the only outcome is \<open>Inr\<close>. The entries of a long tensor are
  64-bit; after the clamp all sums stay between \<open>len - right - left\<close> and \<open>len - 1\<close>
  so that no wrap-around occurs for any length a tensor can have, and unbounded
  integers are used.
\<close>

definition expand_index :: "'a dataset_scheme \<Rightarrow> int list \<Rightarrow> error + int list list" where
  "expand_index self index =
     (let offs = arange (- int (left (offset self))) (int (right (offset self)));
          index' = map (\<lambda>x. clamp x (int (left (offset self)))
                                    (int (len self) - int (right (offset self)))) index
      in Inr (map (\<lambda>i. map (\<lambda>d. i + d) offs) index'))"

text \<open>
  The optional side-indices. Both properties of the base class are
  \<^verbatim>\<open>return None\<close>; \<open>'t\<close> is the tensor type a subclass would return.
\<close>

definition continuous_index :: "'a dataset_scheme \<Rightarrow> 't option" where
  "continuous_index self = None"

definition discrete_index :: "'a dataset_scheme \<Rightarrow> 't option" where
  "discrete_index self = None"

text \<open>
  Modelled from the spec: the model class (\<^verbatim>\<open>cebra.models.Model\<close>) is an external
  collaborator of which only the capability \<^verbatim>\<open>get_offset() -> Offset\<close> is known;
  the field holds the offset that call returns.
\<close>

record model =
  get_offset :: Offset

text \<open>
  \<^verbatim>\<open>
  def configure_for(self, model):
      self.offset = model.get_offset()
  \<close>
  The method mutates the dataset; the model returns the dataset after the call.
\<close>

definition configure_for :: "'a dataset_scheme \<Rightarrow> 'm model_scheme \<Rightarrow> 'a dataset_scheme" where
  "configure_for self m = self\<lparr>offset := get_offset m\<rparr>"

section \<open>Loader (\<open>cebra/data/base.py\<close>)\<close>

text \<open>
  The dataclass fields: the dataset (a reference), \<^verbatim>\<open>num_steps\<close> and
  \<^verbatim>\<open>batch_size\<close>, each an integer or \<^verbatim>\<open>None\<close>.
\<close>

record 'd loader =
  dataset :: 'd
  num_steps :: "int option"
  batch_size :: "int option"

text \<open>
  \<^verbatim>\<open>
  def __post_init__(self):
      if self.num_steps is None or self.num_steps <= 0:
          raise ValueError(...)
      if self.batch_size is not None and self.batch_size <= 0:
          raise ValueError(...)
  \<close>
  The checks run in this order. On success the loader is returned unchanged.
\<close>

definition post_init :: "('d, 'a) loader_scheme \<Rightarrow> error + ('d, 'a) loader_scheme" where
  "post_init self =
     (if (case num_steps self of None \<Rightarrow> True | Some n \<Rightarrow> n \<le> 0)
      then Inl (ValueError NumSteps)
      else if (case batch_size self of None \<Rightarrow> False | Some b \<Rightarrow> b \<le> 0)
      then Inl (ValueError BatchSize)
      else Inr self)"

text \<open>
  Construction: the \<^verbatim>\<open>__init__\<close> a dataclass generates stores the three fields
  and then calls \<^verbatim>\<open>__post_init__\<close>; an exception there means no loader exists.
\<close>

definition Loader_init :: "'d \<Rightarrow> int option \<Rightarrow> int option \<Rightarrow> error + 'd loader" where
  "Loader_init ds ns bs = post_init \<lparr>dataset = ds, num_steps = ns, batch_size = bs\<rparr>"

text \<open>
  \<^verbatim>\<open>__len__\<close> returns the attribute as it is. The builtin \<^verbatim>\<open>len\<close>, which
  \<^verbatim>\<open>__iter__\<close> calls, accepts from it an integer between \<open>0\<close> and
  \<^verbatim>\<open>sys.maxsize\<close> and raises otherwise. \<^verbatim>\<open>sys.maxsize\<close> is \<open>2^63 - 1\<close> on a
  64-bit CPython.
\<close>

definition Loader_len :: "('d, 'a) loader_scheme \<Rightarrow> int option" where
  "Loader_len self = num_steps self"

definition maxsize :: int where
  "maxsize = 2 ^ 63 - 1"

definition builtin_len :: "int option \<Rightarrow> error + nat" where
  "builtin_len r =
     (case r of None \<Rightarrow> Inl TypeError
      | Some n \<Rightarrow> if n < 0 then Inl (ValueError NegativeLen)
                  else if maxsize < n then Inl OverflowError
                  else Inr (nat n))"

text \<open>
  \<^verbatim>\<open>
  def __iter__(self):
      for _ in range(len(self)):
          index = self.get_indices(num_samples=self.batch_size)
          yield self.dataset.load_batch(index)
  \<close>
  \<^verbatim>\<open>get_indices\<close> and \<^verbatim>\<open>load_batch\<close> are abstract: a concrete subclass supplies
  them. They are parameters here, \<open>gi\<close> and \<open>lb\<close>, acting on a state \<open>'s\<close> (the
  random generator and whatever else they touch) and either raising or returning a
  value with the next state. Running the generator to its end gives the batches
  yielded so far together with the final state, or the exception that ended it.
\<close>

fun iter_steps ::
  "nat \<Rightarrow> (int option \<Rightarrow> 's \<Rightarrow> error + 'i \<times> 's) \<Rightarrow> ('i \<Rightarrow> 's \<Rightarrow> error + 'b \<times> 's) \<Rightarrow>
   int option \<Rightarrow> 's \<Rightarrow> 'b list \<times> (error + 's)" where
  "iter_steps 0 gi lb bsz s = ([], Inr s)"
| "iter_steps (Suc k) gi lb bsz s =
     (case gi bsz s of
        Inl e \<Rightarrow> ([], Inl e)
      | Inr (index, s1) \<Rightarrow>
          (case lb index s1 of
             Inl e \<Rightarrow> ([], Inl e)
           | Inr (b, s2) \<Rightarrow>
               (case iter_steps k gi lb bsz s2 of (rest, r) \<Rightarrow> (b # rest, r))))"

definition Loader_iter ::
  "('d, 'a) loader_scheme \<Rightarrow> (int option \<Rightarrow> 's \<Rightarrow> error + 'i \<times> 's) \<Rightarrow>
   ('d \<Rightarrow> 'i \<Rightarrow> 's \<Rightarrow> error + 'b \<times> 's) \<Rightarrow> 's \<Rightarrow> 'b list \<times> (error + 's)" where
  "Loader_iter self gi lb s =
     (case builtin_len (Loader_len self) of
        Inl e \<Rightarrow> ([], Inl e)
      | Inr n \<Rightarrow> iter_steps n gi (lb (dataset self)) (batch_size self) s)"

section \<open>Noise functions (\<open>cebra/datasets/generate_synthetic_data.py\<close>)\<close>

text \<open>
  The six module-level functions decorated with \<^verbatim>\<open>@_register_noise\<close>, in the
  order of the file, and the \<^verbatim>\<open>__name__\<close> of each.
\<close>

datatype noise_func = Poisson | Gaussian | Laplace | Uniform | StudentT | Refractory_Poisson

fun func_name :: "noise_func \<Rightarrow> string" where
  "func_name Poisson = ''poisson''"
| "func_name Gaussian = ''gaussian''"
| "func_name Laplace = ''laplace''"
| "func_name Uniform = ''uniform''"
| "func_name StudentT = ''t''"
| "func_name Refractory_Poisson = ''refractory_poisson''"

text \<open>
  \<^verbatim>\<open>
  __noises = {}
  def _register_noise(func):
      __noises[func.__name__] = func
      return func
  \<close>
  The dictionary keeps insertion order, so it is an association list; assigning to a
  key replaces the value in place or appends a new entry.
\<close>

definition register_noise ::
  "noise_func \<Rightarrow> (string \<times> noise_func) list \<Rightarrow> (string \<times> noise_func) list" where
  "register_noise func reg = AList.update (func_name func) func reg"

definition noises :: "(string \<times> noise_func) list" where
  "noises = fold register_noise
              [Poisson, Gaussian, Laplace, Uniform, StudentT, Refractory_Poisson] []"

text \<open>
  Calling a noise function. Five of them return what a numpy or scipy sampler
  returns (\<^verbatim>\<open>np.random.poisson(x)\<close>, \<^verbatim>\<open>scipy.stats.truncnorm.rvs(0, 1000, loc=x)\<close>,
  the clipped \<^verbatim>\<open>np.random.laplace(x)\<close>, \<^verbatim>\<open>np.random.uniform(0, 2, x.shape) + x\<close>,
  \<^verbatim>\<open>scipy.stats.distributions.t.rvs(2, loc=x)\<close>); those library calls are the
  parameter \<open>lib\<close>, acting on the generator state \<open>'g\<close>. The sixth is
  \<^verbatim>\<open>raise NotImplementedError()\<close>.
\<close>

fun call_noise ::
  "(noise_func \<Rightarrow> 'x \<Rightarrow> 'g \<Rightarrow> 'x \<times> 'g) \<Rightarrow> noise_func \<Rightarrow> 'x \<Rightarrow> 'g \<Rightarrow> error + 'x \<times> 'g" where
  "call_noise lib Refractory_Poisson x g = Inl NotImplementedError"
| "call_noise lib f x g = Inr (lib f x g)"

section \<open>The refractory transform\<close>

text \<open>
  A tensor of arbitrary shape: a scalar entry, or a sequence of sub-tensors along the
  leading dimension. The shape of a tensor lists the sizes of its dimensions.
\<close>

datatype 'a tensor = Scalar 'a | Tensor "'a tensor list"

fun shape :: "'a tensor \<Rightarrow> nat list" where
  "shape (Scalar x) = []"
| "shape (Tensor ts) = length ts # (case ts of [] \<Rightarrow> [] | t # _ \<Rightarrow> shape t)"

text \<open>
  Modelled from the spec: \<^verbatim>\<open>PoissonNeuronTransform\<close> (\<^verbatim>\<open>cebra/datasets/poisson.py\<close>)
  is called by \<^verbatim>\<open>tests/test_datasets.py\<close> but is not part of the sources at hand.
  The spec: it is a stateless adapter holding \<^verbatim>\<open>num_neurons\<close> and
  \<^verbatim>\<open>refractory_period\<close>; applied to a tensor of rates it returns a tensor in which
  each scalar entry is replaced by one independent draw of the refractory-corrected
  spike count at that rate. The single draw is the parameter \<open>draw\<close>: from the
  refractory period, a rate and the generator state it gives a count and the next
  generator state.
\<close>

record 'p PoissonNeuronTransform =
  num_neurons :: nat
  refractory_period :: 'p

fun sample_tensor :: "('r \<Rightarrow> 'g \<Rightarrow> nat \<times> 'g) \<Rightarrow> 'r tensor \<Rightarrow> 'g \<Rightarrow> nat tensor \<times> 'g"
  and sample_tensors :: "('r \<Rightarrow> 'g \<Rightarrow> nat \<times> 'g) \<Rightarrow> 'r tensor list \<Rightarrow> 'g \<Rightarrow> nat tensor list \<times> 'g"
  where
  "sample_tensor d (Scalar r) g = (case d r g of (c, g') \<Rightarrow> (Scalar c, g'))"
| "sample_tensor d (Tensor ts) g = (case sample_tensors d ts g of (cs, g') \<Rightarrow> (Tensor cs, g'))"
| "sample_tensors d [] g = ([], g)"
| "sample_tensors d (t # ts) g =
     (case sample_tensor d t g of (c, g1) \<Rightarrow>
        (case sample_tensors d ts g1 of (cs, g2) \<Rightarrow> (c # cs, g2)))"

definition apply_transform ::
  "('p \<Rightarrow> 'r \<Rightarrow> 'g \<Rightarrow> nat \<times> 'g) \<Rightarrow> 'p PoissonNeuronTransform \<Rightarrow> 'r tensor \<Rightarrow> 'g \<Rightarrow>
   nat tensor \<times> 'g" where
  "apply_transform draw self rates g = sample_tensor (draw (refractory_period self)) rates g"

section \<open>Auxiliary facts\<close>

lemma length_arange: "length (arange (- int l) (int r)) = l + r"
  by (simp add: arange_def)

lemma nth_arange: "j < l + r \<Longrightarrow> arange (- int l) (int r) ! j = int j - int l"
  by (simp add: arange_def)

lemma map_add_arange: "map (\<lambda>d. s + d) (arange a b) = arange (s + a) (s + b)"
  by (rule nth_equalityI) (auto simp add: arange_def)

lemma clamp_bounds: "lo \<le> hi \<Longrightarrow> lo \<le> clamp x lo hi \<and> clamp x lo hi \<le> hi"
  by (simp add: clamp_def)

lemma clamp_cases:
  "lo \<le> hi \<Longrightarrow> clamp x lo hi = (if x < lo then lo else if hi < x then hi else x)"
  by (simp add: clamp_def)

lemma clamp_inverted: "hi < lo \<Longrightarrow> clamp x lo hi = hi"
  by (simp add: clamp_def)

lemma expand_index_rows:
  "expand_index self index =
     Inr (map (\<lambda>x. map (\<lambda>d. clamp x (int (left (offset self)))
                                 (int (len self) - int (right (offset self))) + d)
                     (arange (- int (left (offset self))) (int (right (offset self)))))
              index)"
  by (simp add: expand_index_def Let_def comp_def)

lemma iter_steps_complete:
  assumes "\<forall>s. \<exists>index s'. gi bsz s = Inr (index, s')"
    and "\<forall>index s. \<exists>b s'. lb index s = Inr (b, s')"
  shows "\<exists>batches s'. iter_steps n gi lb bsz s = (batches, Inr s') \<and> length batches = n"
proof (induction n arbitrary: s)
  case 0
  show ?case by simp
next
  case (Suc n)
  from assms(1) obtain index s1 where g: "gi bsz s = Inr (index, s1)" by blast
  from assms(2) obtain b s2 where l: "lb index s1 = Inr (b, s2)" by blast
  from Suc.IH [of s2] obtain rest s' where
    r: "iter_steps n gi lb bsz s2 = (rest, Inr s')" "length rest = n" by blast
  show ?case using g l r by simp
qed

lemma iter_steps_add:
  "iter_steps (k + m) gi lb bsz s =
     (case iter_steps k gi lb bsz s of
        (pre, Inl e) \<Rightarrow> (pre, Inl e)
      | (pre, Inr sk) \<Rightarrow> (case iter_steps m gi lb bsz sk of (post, r) \<Rightarrow> (pre @ post, r)))"
  by (induction k arbitrary: s) (auto split: sum.splits prod.splits)

lemma iter_steps_length:
  "iter_steps k gi lb bsz s = (pre, Inr sk) \<Longrightarrow> length pre = k"
  by (induction k arbitrary: s pre) (auto split: sum.splits prod.splits)

lemma iter_steps_nth:
  assumes "k < n"
    and "iter_steps n gi lb bsz s = (batches, r)"
    and "iter_steps k gi lb bsz s = (pre, Inr sk)"
    and "gi bsz sk = Inr (index, s1)"
    and "lb index s1 = Inr (b, s2)"
  shows "batches ! k = b"
proof -
  obtain m where n: "n = k + Suc m" using assms(1) less_iff_Suc_add by auto
  obtain post r' where p: "iter_steps m gi lb bsz s2 = (post, r')"
    by (cases "iter_steps m gi lb bsz s2")
  have "iter_steps n gi lb bsz s = (pre @ b # post, r')"
    unfolding n iter_steps_add using assms(3,4,5) p by simp
  then have "batches = pre @ b # post" using assms(2) by simp
  moreover have "length pre = k" using assms(3) by (rule iter_steps_length)
  ultimately show ?thesis by (simp add: nth_append)
qed

lemma noises_eq:
  "noises = [(''poisson'', Poisson), (''gaussian'', Gaussian), (''laplace'', Laplace),
             (''uniform'', Uniform), (''t'', StudentT),
             (''refractory_poisson'', Refractory_Poisson)]"
  by (simp add: noises_def register_noise_def)

lemma sample_keeps_shape:
  "shape (fst (sample_tensor d t g)) = shape t"
  "length (fst (sample_tensors d ts g)) = length ts \<and>
   (case fst (sample_tensors d ts g) of [] \<Rightarrow> [] | c # _ \<Rightarrow> shape c)
     = (case ts of [] \<Rightarrow> [] | t # _ \<Rightarrow> shape t)"
  by (induction d t g and d ts g rule: sample_tensor_sample_tensors.induct)
     (auto split: prod.splits)

lemma sample_keeps_skeleton:
  "map_tensor (\<lambda>_. ()) (fst (sample_tensor d t g)) = map_tensor (\<lambda>_. ()) t"
  "map (map_tensor (\<lambda>_. ())) (fst (sample_tensors d ts g)) = map (map_tensor (\<lambda>_. ())) ts"
  by (induction d t g and d ts g rule: sample_tensor_sample_tensors.induct)
     (auto split: prod.splits)

section \<open>Index expansion\<close>

text \<open>
  C1. For a dataset of length \<open>N\<close> whose bound offset satisfies \<open>left + right \<le> N\<close>
  and every one-dimensional index, \<open>expand_index\<close> returns one row per seed, each row
  of length \<open>left + right\<close>, with
  \<open>result[i, j] = clamp(index[i], left, N - right) + j - left\<close>, and every entry lies in
  \<open>[0, N)\<close>.
\<close>

theorem expand_index_windows:
  assumes "left (offset self) + right (offset self) \<le> len self"
  shows "\<exists>r. expand_index self index = Inr r \<and> length r = length index \<and>
           (\<forall>i < length index.
              length (r ! i) = left (offset self) + right (offset self) \<and>
              (\<forall>j < left (offset self) + right (offset self).
                 r ! i ! j = clamp (index ! i) (int (left (offset self)))
                               (int (len self) - int (right (offset self)))
                             + int j - int (left (offset self)) \<and>
                 0 \<le> r ! i ! j \<and> r ! i ! j < int (len self)))"
proof -
  let ?l = "left (offset self)" and ?r = "right (offset self)" and ?n = "len self"
  let ?rows = "map (\<lambda>x. map (\<lambda>d. clamp x (int ?l) (int ?n - int ?r) + d)
                          (arange (- int ?l) (int ?r))) index"
  have le: "int ?l \<le> int ?n - int ?r" using assms by linarith
  have b: "int ?l \<le> clamp x (int ?l) (int ?n - int ?r) \<and>
           clamp x (int ?l) (int ?n - int ?r) \<le> int ?n - int ?r" for x
    using clamp_bounds [OF le] .
  show ?thesis
  proof (intro exI conjI allI impI)
    show "expand_index self index = Inr ?rows"
      by (rule expand_index_rows)
  next
    show "length ?rows = length index" by simp
  next
    fix i assume "i < length index"
    then show "length (?rows ! i) = ?l + ?r"
      by (simp add: length_arange)
  next
    fix i j assume i: "i < length index" and j: "j < ?l + ?r"
    have e: "?rows ! i ! j = clamp (index ! i) (int ?l) (int ?n - int ?r) + int j - int ?l"
      using i j by (simp add: length_arange nth_arange)
    show "?rows ! i ! j = clamp (index ! i) (int ?l) (int ?n - int ?r) + int j - int ?l"
      by (rule e)
    show "0 \<le> ?rows ! i ! j" using e b [of "index ! i"] by linarith
    show "?rows ! i ! j < int ?n" using e b [of "index ! i"] j by linarith
  qed
qed

theorem expand_index_windows_witness:
  "left (offset \<lparr>offset = \<lparr>left = 2, right = 3\<rparr>, device = ''cpu'', len = 10\<rparr>)
     + right (offset \<lparr>offset = \<lparr>left = 2, right = 3\<rparr>, device = ''cpu'', len = 10\<rparr>)
     \<le> len \<lparr>offset = \<lparr>left = 2, right = 3\<rparr>, device = ''cpu'', len = 10\<rparr> \<and>
   (\<exists>r. expand_index \<lparr>offset = \<lparr>left = 2, right = 3\<rparr>, device = ''cpu'', len = 10\<rparr>
          [-5, 4, 100] = Inr r \<and>
        length r = 3 \<and> length (r ! 2) = 5 \<and> r ! 2 ! 4 = 9 \<and> r ! 0 ! 0 = 0)"
  using expand_index_windows
          [of "\<lparr>offset = \<lparr>left = 2, right = 3\<rparr>, device = ''cpu'', len = 10\<rparr>" "[-5, 4, 100]"]
  by (simp add: expand_index_rows arange_def clamp_def)

text \<open>
  C2. The claim is that a dataset shorter than the window makes \<open>expand_index\<close> fail
  with a bounds error. The code has no such check. When \<open>N < left + right\<close> the lower
  clamp bound exceeds the upper one, the clamp sends every seed to \<open>N - right\<close>, and
  \<open>expand_index\<close> returns normally: every row is the same window
  \<open>N - right - left, ..., N - 1\<close>, whatever the seed, and that window starts below zero.
\<close>

theorem expand_index_short_dataset:
  assumes "len self < left (offset self) + right (offset self)"
  shows "expand_index self index =
           Inr (replicate (length index)
                  (arange (int (len self) - int (right (offset self)) - int (left (offset self)))
                          (int (len self)))) \<and>
         int (len self) - int (right (offset self)) - int (left (offset self)) < 0"
proof -
  let ?l = "int (left (offset self))" and ?r = "int (right (offset self))"
  let ?n = "int (len self)"
  have inv: "?n - ?r < ?l" using assms by linarith
  have row: "map (\<lambda>d. clamp x ?l (?n - ?r) + d) (arange (- ?l) ?r) = arange (?n - ?r - ?l) ?n"
    for x
    by (simp add: clamp_inverted [OF inv] map_add_arange)
  have "expand_index self index = Inr (map (\<lambda>x. arange (?n - ?r - ?l) ?n) index)"
    by (simp only: expand_index_rows row)
  then show ?thesis using inv by (simp add: map_replicate_const)
qed

theorem expand_index_short_dataset_witness:
  "len \<lparr>offset = \<lparr>left = 2, right = 2\<rparr>, device = ''cpu'', len = 1\<rparr>
     < left (offset \<lparr>offset = \<lparr>left = 2, right = 2\<rparr>, device = ''cpu'', len = 1\<rparr>)
       + right (offset \<lparr>offset = \<lparr>left = 2, right = 2\<rparr>, device = ''cpu'', len = 1\<rparr>) \<and>
   expand_index \<lparr>offset = \<lparr>left = 2, right = 2\<rparr>, device = ''cpu'', len = 1\<rparr> [0, 7]
     = Inr [[-3, -2, -1, 0], [-3, -2, -1, 0]]"
  using expand_index_short_dataset
          [of "\<lparr>offset = \<lparr>left = 2, right = 2\<rparr>, device = ''cpu'', len = 1\<rparr>" "[0, 7]"]
  by (simp add: arange_def upto.simps)

text \<open>
  The claim C2 as stated fails on a dataset of length 1 with the offset \<open>(2, 2)\<close> and the
  index \<open>[0]\<close>: the call returns the window \<open>[-3, -2, -1, 0]\<close> instead of raising.
\<close>

theorem expand_index_short_dataset_counterexample:
  "len \<lparr>offset = \<lparr>left = 2, right = 2\<rparr>, device = ''cpu'', len = 1\<rparr>
     < left (offset \<lparr>offset = \<lparr>left = 2, right = 2\<rparr>, device = ''cpu'', len = 1\<rparr>)
       + right (offset \<lparr>offset = \<lparr>left = 2, right = 2\<rparr>, device = ''cpu'', len = 1\<rparr>) \<and>
   expand_index \<lparr>offset = \<lparr>left = 2, right = 2\<rparr>, device = ''cpu'', len = 1\<rparr> [0]
     = Inr [[-3, -2, -1, 0]]"
  by (simp add: expand_index_rows arange_def clamp_def upto.simps)

text \<open>
  C9. \<open>expand_index\<close> is total over the seeds: when \<open>left + right \<le> N\<close> it returns
  normally for every index, however far out of range its entries are. Each seed below
  \<open>left\<close> is replaced by \<open>left\<close>, each seed above \<open>N - right\<close> by \<open>N - right\<close>, every other
  seed is kept, and the row is the window of offset deltas around that clamped seed.
\<close>

theorem expand_index_total:
  assumes "left (offset self) + right (offset self) \<le> len self"
  shows "\<exists>r. expand_index self index = Inr r \<and> length r = length index \<and>
           (\<forall>i < length index. \<exists>seed.
              seed = (if index ! i < int (left (offset self)) then int (left (offset self))
                      else if int (len self) - int (right (offset self)) < index ! i
                      then int (len self) - int (right (offset self))
                      else index ! i) \<and>
              int (left (offset self)) \<le> seed \<and>
              seed \<le> int (len self) - int (right (offset self)) \<and>
              r ! i = map (\<lambda>d. seed + d)
                        (arange (- int (left (offset self))) (int (right (offset self)))))"
proof -
  let ?l = "int (left (offset self))" and ?r = "int (right (offset self))"
  let ?n = "int (len self)"
  have le: "?l \<le> ?n - ?r" using assms by linarith
  let ?rows = "map (\<lambda>x. map (\<lambda>d. clamp x ?l (?n - ?r) + d) (arange (- ?l) ?r)) index"
  have "\<exists>seed. seed = (if index ! i < ?l then ?l else if ?n - ?r < index ! i then ?n - ?r
                       else index ! i) \<and>
          ?l \<le> seed \<and> seed \<le> ?n - ?r \<and> ?rows ! i = map (\<lambda>d. seed + d) (arange (- ?l) ?r)"
    if "i < length index" for i
    using that clamp_bounds [OF le, of "index ! i"] clamp_cases [OF le, of "index ! i"]
    by (intro exI [of _ "clamp (index ! i) ?l (?n - ?r)"]) simp
  then show ?thesis
    by (intro exI [of _ ?rows]) (simp add: expand_index_rows)
qed

theorem expand_index_total_witness:
  "left (offset \<lparr>offset = \<lparr>left = 1, right = 2\<rparr>, device = ''cpu'', len = 6\<rparr>)
     + right (offset \<lparr>offset = \<lparr>left = 1, right = 2\<rparr>, device = ''cpu'', len = 6\<rparr>)
     \<le> len \<lparr>offset = \<lparr>left = 1, right = 2\<rparr>, device = ''cpu'', len = 6\<rparr> \<and>
   (\<exists>r. expand_index \<lparr>offset = \<lparr>left = 1, right = 2\<rparr>, device = ''cpu'', len = 6\<rparr>
          [-1000, 3, 1000] = Inr r \<and> length r = 3)"
  using expand_index_total
          [of "\<lparr>offset = \<lparr>left = 1, right = 2\<rparr>, device = ''cpu'', len = 6\<rparr>" "[-1000, 3, 1000]"]
  by auto

section \<open>Dataset accessors and configuration\<close>

text \<open>
  C7. On a dataset that does not override them, \<open>continuous_index\<close> and
  \<open>discrete_index\<close> both return \<open>None\<close>, which is not the empty array.
\<close>

theorem side_indices_default_none:
  "continuous_index self = (None :: 'x list option) \<and>
   discrete_index self = (None :: 'y list option) \<and>
   continuous_index self \<noteq> Some ([] :: 'x list) \<and>
   discrete_index self \<noteq> Some ([] :: 'y list)"
  by (simp add: continuous_index_def discrete_index_def)

text \<open>
  C10. \<open>configure_for\<close> overwrites the bound offset with the offset of the model,
  whatever offset was bound before (the default of a fresh dataset, or the offset of an
  earlier \<open>configure_for\<close>), and leaves the device, the length and every field of a
  subclass as they were.
\<close>

theorem configure_for_frame:
  "offset (configure_for self m) = get_offset m \<and>
   device (configure_for self m) = device self \<and>
   len (configure_for self m) = len self \<and>
   dataset.more (configure_for self m) = dataset.more self \<and>
   offset (Dataset_init dev n) = \<lparr>left = 0, right = 1\<rparr> \<and>
   offset (configure_for (Dataset_init dev n) m) = get_offset m \<and>
   configure_for (configure_for self m') m = configure_for self m"
  by (simp add: configure_for_def Dataset_init_def)

section \<open>Loader\<close>

text \<open>
  C4. Constructing a loader fails with a \<open>ValueError\<close> when \<open>num_steps\<close> is \<open>None\<close> or
  not positive, and when \<open>batch_size\<close> is given and not positive; the failure is the
  result of the construction itself, so no loader exists to iterate. With a positive
  \<open>num_steps\<close> and a \<open>batch_size\<close> that is \<open>None\<close> or positive the construction returns
  the loader with the three fields as given.
\<close>

theorem Loader_init_validation:
  "((ns = None \<or> (\<exists>n. ns = Some n \<and> n \<le> 0))
       \<longrightarrow> Loader_init ds ns bs = Inl (ValueError NumSteps)) \<and>
   ((\<exists>n. ns = Some n \<and> 0 < n) \<and> (\<exists>b. bs = Some b \<and> b \<le> 0)
       \<longrightarrow> Loader_init ds ns bs = Inl (ValueError BatchSize)) \<and>
   ((\<exists>n. ns = Some n \<and> 0 < n) \<and> (bs = None \<or> (\<exists>b. bs = Some b \<and> 0 < b))
       \<longrightarrow> Loader_init ds ns bs = Inr \<lparr>dataset = ds, num_steps = ns, batch_size = bs\<rparr>)"
  by (auto simp add: Loader_init_def post_init_def split: option.splits)

theorem Loader_init_validation_witness:
  "Loader_init ''data'' None (Some 8) = Inl (ValueError NumSteps) \<and>
   Loader_init ''data'' (Some 0) None = Inl (ValueError NumSteps) \<and>
   Loader_init ''data'' (Some 10) (Some (-1)) = Inl (ValueError BatchSize) \<and>
   Loader_init ''data'' (Some 10) None
     = Inr \<lparr>dataset = ''data'', num_steps = Some 10, batch_size = None\<rparr> \<and>
   Loader_init ''data'' (Some 10) (Some 8)
     = Inr \<lparr>dataset = ''data'', num_steps = Some 10, batch_size = Some 8\<rparr>"
  using Loader_init_validation [of None "''data''" "Some 8"]
        Loader_init_validation [of "Some 0" "''data''" None]
        Loader_init_validation [of "Some 10" "''data''" "Some (-1)"]
        Loader_init_validation [of "Some 10" "''data''" None]
        Loader_init_validation [of "Some 10" "''data''" "Some 8"]
  by simp

text \<open>
  C5. The claim is that every loader that was constructed successfully has \<open>len\<close>
  equal to \<open>num_steps\<close> and yields \<open>num_steps\<close> batches. \<open>__post_init__\<close> puts no upper
  bound on \<open>num_steps\<close>, while \<open>len\<close> refuses a value beyond \<open>sys.maxsize\<close>. So the
  statement holds for \<open>num_steps\<close> up to \<open>sys.maxsize\<close>: \<open>len\<close> is \<open>num_steps\<close>, and,
  when \<open>get_indices\<close> and \<open>load_batch\<close> of the subclass return normally, iterating the
  loader to its end yields exactly \<open>num_steps\<close> batches without an exception. The batch
  number \<open>k\<close> is what \<open>load_batch\<close> of the loader's dataset returns for the index that
  \<open>get_indices\<close> returned for the loader's \<open>batch_size\<close>, called in the state the first
  \<open>k\<close> steps left behind.
\<close>

theorem Loader_iter_yields_num_steps:
  assumes "Loader_init ds (Some n) bs = Inr ld"
    and "n \<le> maxsize"
    and "\<forall>s. \<exists>index s'. gi bs s = Inr (index, s')"
    and "\<forall>index s. \<exists>b s'. lb ds index s = Inr (b, s')"
  shows "\<exists>batches s'.
           0 < n \<and> num_steps ld = Some n \<and> builtin_len (Loader_len ld) = Inr (nat n) \<and>
           Loader_iter ld gi lb s = (batches, Inr s') \<and> length batches = nat n \<and>
           (\<forall>k < nat n. \<exists>sk index s1 s2.
              snd (iter_steps k gi (lb ds) bs s) = Inr sk \<and>
              gi bs sk = Inr (index, s1) \<and>
              lb ds index s1 = Inr (batches ! k, s2))"
proof -
  from assms(1) have n: "0 < n"
    and ld: "ld = \<lparr>dataset = ds, num_steps = Some n, batch_size = bs\<rparr>"
    by (auto simp add: Loader_init_def post_init_def split: option.splits if_splits)
  have len: "builtin_len (Loader_len ld) = Inr (nat n)"
    using n ld assms(2) by (simp add: builtin_len_def Loader_len_def)
  have it: "Loader_iter ld gi lb s = iter_steps (nat n) gi (lb ds) bs s"
    using len ld by (simp add: Loader_iter_def)
  have all: "\<exists>batches s'. iter_steps m gi (lb ds) bs s = (batches, Inr s') \<and> length batches = m"
    for m
    using assms(3,4) by (intro iter_steps_complete) auto
  from all [of "nat n"] obtain batches s' where
    run: "iter_steps (nat n) gi (lb ds) bs s = (batches, Inr s')" "length batches = nat n"
    by blast
  have step: "\<exists>sk index s1 s2.
              snd (iter_steps k gi (lb ds) bs s) = Inr sk \<and>
              gi bs sk = Inr (index, s1) \<and>
              lb ds index s1 = Inr (batches ! k, s2)" if k: "k < nat n" for k
  proof -
    from all [of k] obtain pre sk where pre: "iter_steps k gi (lb ds) bs s = (pre, Inr sk)"
      by blast
    from assms(3) obtain index s1 where g: "gi bs sk = Inr (index, s1)" by blast
    from assms(4) obtain b s2 where l: "lb ds index s1 = Inr (b, s2)" by blast
    have "batches ! k = b" using iter_steps_nth [OF k run(1) pre g l] .
    then show ?thesis using pre g l by auto
  qed
  show ?thesis using n ld len it run step by auto
qed

theorem Loader_iter_yields_num_steps_witness:
  "Loader_init ''data'' (Some 3) (Some 8)
     = Inr \<lparr>dataset = ''data'', num_steps = Some 3, batch_size = Some 8\<rparr> \<and>
   (3::int) \<le> maxsize \<and>
   (\<forall>s. \<exists>index s'. (\<lambda>bsz (s::nat). Inr (s, s + 1)) (Some (8::int)) s = Inr (index, s')) \<and>
   (\<forall>index s. \<exists>b s'.
      (\<lambda>ds (i::nat) (s::nat). Inr (2 * i, s)) ''data'' index s = Inr (b, s')) \<and>
   (\<exists>batches s'.
      Loader_iter \<lparr>dataset = ''data'', num_steps = Some 3, batch_size = Some 8\<rparr>
        (\<lambda>bsz (s::nat). Inr (s, s + 1)) (\<lambda>ds (i::nat) (s::nat). Inr (2 * i, s)) 0
      = (batches :: nat list, Inr s') \<and> length batches = 3)"
  using Loader_iter_yields_num_steps
    [of "''data''" 3 "Some 8"
        "\<lparr>dataset = ''data'', num_steps = Some 3, batch_size = Some 8\<rparr>"
        "\<lambda>bsz (s::nat). Inr (s, s + 1)" "\<lambda>ds (i::nat) (s::nat). Inr (2 * i, s)" 0]
  by (auto simp add: Loader_init_def post_init_def maxsize_def)

text \<open>
  The claim C5 as stated fails for \<open>num_steps = 2^63\<close>: the construction succeeds,
  \<open>len\<close> of that loader raises \<open>OverflowError\<close> instead of returning \<open>num_steps\<close>, and
  the iteration ends with that exception before the first batch, although
  \<open>get_indices\<close> and \<open>load_batch\<close> would return normally.
\<close>

theorem Loader_iter_yields_num_steps_counterexample:
  "Loader_init ''data'' (Some 9223372036854775808) (Some 8)
     = Inr \<lparr>dataset = ''data'', num_steps = Some 9223372036854775808, batch_size = Some 8\<rparr> \<and>
   builtin_len (Loader_len
       \<lparr>dataset = ''data'', num_steps = Some 9223372036854775808, batch_size = Some 8\<rparr>)
     = Inl OverflowError \<and>
   Loader_iter \<lparr>dataset = ''data'', num_steps = Some 9223372036854775808, batch_size = Some 8\<rparr>
       (\<lambda>bsz (s::nat). Inr (s, s + 1)) (\<lambda>ds (i::nat) (s::nat). Inr (2 * i, s)) 0
     = ([] :: nat list, Inl OverflowError)"
  by (simp add: Loader_init_def post_init_def builtin_len_def Loader_len_def Loader_iter_def
        maxsize_def)

section \<open>Noise registry\<close>

text \<open>
  C8. The registry of noise functions holds exactly the keys \<open>poisson\<close>, \<open>gaussian\<close>,
  \<open>laplace\<close>, \<open>uniform\<close>, \<open>t\<close> and \<open>refractory_poisson\<close>, and calling the function
  registered as \<open>refractory_poisson\<close> raises \<open>NotImplementedError\<close> on every input; that
  error is not a \<open>ValueError\<close>.
\<close>

theorem refractory_poisson_not_implemented:
  "map fst noises
     = [''poisson'', ''gaussian'', ''laplace'', ''uniform'', ''t'', ''refractory_poisson''] \<and>
   map_option (\<lambda>f. call_noise lib f x g) (map_of noises ''refractory_poisson'')
     = Some (Inl NotImplementedError) \<and>
   NotImplementedError \<noteq> ValueError c"
  by (simp add: noises_eq)

section \<open>Refractory transform\<close>

text \<open>
  C6. Applying \<open>PoissonNeuronTransform\<close> to a tensor of rates returns a tensor of
  counts of the same shape; more precisely the two tensors have the same nesting, entry
  for entry.
\<close>

theorem transform_keeps_shape:
  "shape (fst (apply_transform draw self rates g)) = shape rates \<and>
   map_tensor (\<lambda>_. ()) (fst (apply_transform draw self rates g)) = map_tensor (\<lambda>_. ()) rates"
  by (simp add: apply_transform_def sample_keeps_shape sample_keeps_skeleton)

end
